theory Spec2Isabelle
  imports
    Complex_Main
    "HOL-Library.Char_ord"
    "HOL-Library.List_Lexorder"
    "HOL-Library.Multiset"
begin

section \<open>Batch thumbnails with FFmpeg: a model of \<open>Travel/make_thumbs.py\<close>\<close>

text \<open>
  The script lists the videos of a folder and, for each one, builds an \<open>ffmpeg\<close> command
  line for one of four modes and runs it. The model below follows the script function by
  function and keeps its names.

  Conventions of the model:
  \<^item> a Python \<open>str\<close> is a \<open>string\<close>; file names and options are taken to be ASCII, so
    \<open>str.lower\<close> is the ASCII case mapping and the order of \<open>str\<close> is the order of the
    characters' codes;
  \<^item> a \<open>pathlib.Path\<close> is the string \<open>str(path)\<close> of a POSIX path; \<open>name\<close>, \<open>stem\<close> and
    \<open>suffix\<close> are those of CPython 3.10 to 3.13;
  \<^item> a Python \<open>int\<close> is an \<open>int\<close>; a Python \<open>float\<close> is a \<open>real\<close>: rounding, infinities
    and NaN of IEEE arithmetic are outside the model;
  \<^item> an exception is a value of the type \<open>exn\<close>, and a function that can raise returns
    \<open>exn + 'a\<close>;
  \<^item> the messages the script writes in Russian are constructors named after their meaning.
\<close>

subsection \<open>Strings of Python\<close>

definition lower_char :: "char \<Rightarrow> char" where
  "lower_char c =
     (if CHR ''A'' \<le> c \<and> c \<le> CHR ''Z'' then char_of (of_char c + (32::nat)) else c)"

text \<open>\<open>s.lower()\<close>\<close>

definition lower :: "string \<Rightarrow> string" where
  "lower s = map lower_char s"

text \<open>\<open>s.rfind(c)\<close>: the index of the last \<open>c\<close> in \<open>s\<close>, or \<open>-1\<close>.\<close>

definition rfind :: "char \<Rightarrow> string \<Rightarrow> int" where
  "rfind c s =
     (if c \<in> set s
      then int (length s) - 1 - int (length (takeWhile (\<lambda>d. d \<noteq> c) (rev s)))
      else - 1)"

text \<open>\<open>s.replace(a, b)\<close> for single characters.\<close>

definition replace_char :: "char \<Rightarrow> char \<Rightarrow> string \<Rightarrow> string" where
  "replace_char a b s = map (\<lambda>c. if c = a then b else c) s"

text \<open>\<open>s.split(c)\<close>: the pieces of \<open>s\<close> between the occurrences of \<open>c\<close>.\<close>

fun split_on :: "char \<Rightarrow> string \<Rightarrow> string list" where
  "split_on c [] = [[]]"
| "split_on c (d # s) =
     (if d = c then [] # split_on c s
      else (case split_on c s of
              [] \<Rightarrow> [[d]]
            | p # ps \<Rightarrow> (d # p) # ps))"

text \<open>\<open>sep.join(xs)\<close>\<close>

fun join :: "string \<Rightarrow> string list \<Rightarrow> string" where
  "join sep [] = []"
| "join sep [x] = x"
| "join sep (x # y # ys) = x @ sep @ join sep (y # ys)"

text \<open>\<open>str(n)\<close> for an integer: decimal digits, with a minus sign below zero.\<close>

definition digit_char :: "nat \<Rightarrow> char" where
  "digit_char d = char_of (48 + d)"

fun str_nat :: "nat \<Rightarrow> string" where
  "str_nat n = (if n < 10 then [digit_char n] else str_nat (n div 10) @ [digit_char (n mod 10)])"

declare str_nat.simps [simp del]

definition str_int :: "int \<Rightarrow> string" where
  "str_int i = (if i < 0 then CHR ''-'' # str_nat (nat (- i)) else str_nat (nat i))"

subsection \<open>Paths\<close>

text \<open>\<open>folder / name\<close>, for a \<open>name\<close> of one component.\<close>

definition joinpath :: "string \<Rightarrow> string \<Rightarrow> string" where
  "joinpath folder n = (if folder = ''/'' then ''/'' @ n else folder @ ''/'' @ n)"

text \<open>\<open>path.name\<close>: the last component.\<close>

definition name_of :: "string \<Rightarrow> string" where
  "name_of p = rev (takeWhile (\<lambda>c. c \<noteq> CHR ''/'') (rev p))"

text \<open>
  \<open>path.suffix\<close> and \<open>path.stem\<close>: the name is cut at its last dot, unless that dot is the
  first or the last character of the name.
\<close>

definition suffix :: "string \<Rightarrow> string" where
  "suffix p =
     (let nm = name_of p; i = rfind CHR ''.'' nm
      in if 0 < i \<and> i < int (length nm) - 1 then drop (nat i) nm else [])"

definition stem :: "string \<Rightarrow> string" where
  "stem p =
     (let nm = name_of p; i = rfind CHR ''.'' nm
      in if 0 < i \<and> i < int (length nm) - 1 then take (nat i) nm else nm)"

subsection \<open>Discovery of the videos\<close>

definition VIDEO_EXTS :: "string set" where
  "VIDEO_EXTS = {''.mp4'', ''.mov'', ''.mkv'', ''.avi'', ''.m4v'', ''.webm''}"

text \<open>
  What a name of a directory stands for: a regular file, a directory with its own entries,
  or something else (a socket, a dangling link). \<open>is_file\<close> is \<open>Path.is_file()\<close>.
\<close>

datatype node = File | Dir "(string \<times> node) list" | Other

fun is_file :: "node \<Rightarrow> bool" where
  "is_file File = True"
| "is_file (Dir es) = False"
| "is_file Other = False"

text \<open>
  \<open>folder.iterdir()\<close> yields \<open>folder / name\<close> for the entries of the folder, in the order
  of the operating system: the list \<open>entries\<close>.
\<close>

definition iterdir :: "string \<Rightarrow> (string \<times> node) list \<Rightarrow> (string \<times> node) list" where
  "iterdir folder entries = map (\<lambda>(n, k). (joinpath folder n, k)) entries"

definition list_videos :: "string \<Rightarrow> (string \<times> node) list \<Rightarrow> string list" where
  "list_videos folder entries =
     sort (map fst (filter (\<lambda>(p, k). is_file k \<and> lower (suffix p) \<in> VIDEO_EXTS)
                           (iterdir folder entries)))"


subsection \<open>The operating system and the external tools\<close>

text \<open>
  The exceptions that reach the script, each with its text \<open>str(e)\<close>; a
  \<open>CalledProcessError\<close> has the exit status and the command instead. \<open>OSError\<close> stands for
  any exception of the operating system or of \<open>subprocess\<close> other than
  \<open>CalledProcessError\<close>.
\<close>

datatype exn =
    CalledProcessError int "string list"
  | ValueError string
  | OSError string

text \<open>
  What launching a command gives: the process ran and exited with a status, with what it
  wrote to its output, or the launch itself raised (the tool is not found, say) with the
  text given.
\<close>

datatype proc = Exited int string | Failed string

text \<open>
  The world a job acts on: the paths that exist, and the trace of what the job asked of
  the operating system, oldest first.
\<close>

datatype effect =
    Launch "string list"
  | Create_temp
  | Write_temp string string
  | Remove string

record world =
  files :: "string set"
  trace :: "effect list"

text \<open>
  What the script does not decide is a parameter of the model:
  \<^item> \<open>spawn cmd fs\<close>: the outcome of launching \<open>cmd\<close> when the paths \<open>fs\<close> exist, and the
    paths that exist afterwards (the tool is a black box);
  \<^item> \<open>float_of out\<close>: \<open>float(out.decode().strip())\<close>, or the exception it raises;
  \<^item> \<open>temp_name fs\<close>: the name of the file that
    \<open>tempfile.NamedTemporaryFile(delete=False, suffix=".txt")\<close> creates, or the exception
    it raises;
  \<^item> \<open>write_fails name text\<close>: the exception of writing \<open>text\<close> to the temporary file and
    closing it, if any;
  \<^item> \<open>unlink p fs\<close>: the exception \<open>os.remove(p)\<close> raises, if any.
\<close>

record env =
  spawn :: "string list \<Rightarrow> string set \<Rightarrow> proc \<times> string set"
  float_of :: "string \<Rightarrow> exn + real"
  temp_name :: "string set \<Rightarrow> exn + string"
  write_fails :: "string \<Rightarrow> string \<Rightarrow> exn option"
  unlink :: "string \<Rightarrow> string set \<Rightarrow> exn option"

definition launch :: "env \<Rightarrow> string list \<Rightarrow> world \<Rightarrow> proc \<times> world" where
  "launch e cmd w =
     (let (r, fs) = spawn e cmd (files w)
      in (r, \<lparr>files = fs, trace = trace w @ [Launch cmd]\<rparr>))"

text \<open>
  \<open>subprocess.check_output(cmd, stderr=subprocess.STDOUT)\<close>: the output of the process,
  \<open>CalledProcessError\<close> when its status is not zero.
\<close>

definition check_output :: "env \<Rightarrow> string list \<Rightarrow> world \<Rightarrow> (exn + string) \<times> world" where
  "check_output e cmd w =
     (let (r, w1) = launch e cmd w
      in (case r of
            Exited rc out \<Rightarrow> if rc = 0 then Inr out else Inl (CalledProcessError rc cmd)
          | Failed msg \<Rightarrow> Inl (OSError msg),
          w1))"

text \<open>\<open>subprocess.run(cmd, check=True, stdout=DEVNULL, stderr=DEVNULL)\<close>\<close>

definition subprocess_run :: "env \<Rightarrow> string list \<Rightarrow> world \<Rightarrow> (exn + unit) \<times> world" where
  "subprocess_run e cmd w =
     (let (r, w1) = launch e cmd w
      in (case r of
            Exited rc out \<Rightarrow> if rc = 0 then Inr () else Inl (CalledProcessError rc cmd)
          | Failed msg \<Rightarrow> Inl (OSError msg),
          w1))"

text \<open>\<open>os.remove(p)\<close>: the file is gone afterwards, unless the call raises.\<close>

definition os_remove :: "env \<Rightarrow> string \<Rightarrow> world \<Rightarrow> (exn + unit) \<times> world" where
  "os_remove e p w =
     (case unlink e p (files w) of
        None \<Rightarrow> (Inr (), \<lparr>files = files w - {p}, trace = trace w @ [Remove p]\<rparr>)
      | Some x \<Rightarrow> (Inl x, \<lparr>files = files w, trace = trace w @ [Remove p]\<rparr>))"

subsection \<open>The duration probe and the job runner\<close>

definition ffprobe_cmd :: "string \<Rightarrow> string list" where
  "ffprobe_cmd path =
     [''ffprobe'', ''-v'', ''error'', ''-show_entries'', ''format=duration'',
      ''-of'', ''default=nw=1:nk=1'', path]"

text \<open>The body of the \<open>try\<close> of \<open>ffprobe_duration\<close>.\<close>

definition ffprobe_duration_try :: "env \<Rightarrow> string \<Rightarrow> world \<Rightarrow> (exn + real) \<times> world" where
  "ffprobe_duration_try e path w =
     (case check_output e (ffprobe_cmd path) w of
        (Inl x, w1) \<Rightarrow> (Inl x, w1)
      | (Inr out, w1) \<Rightarrow>
          (case float_of e out of
             Inl x \<Rightarrow> (Inl x, w1)
           | Inr d \<Rightarrow> (Inr (max 0 d), w1)))"

text \<open>\<open>except Exception: return 0.0\<close>\<close>

definition ffprobe_duration :: "env \<Rightarrow> string \<Rightarrow> world \<Rightarrow> real \<times> world" where
  "ffprobe_duration e path w =
     (case ffprobe_duration_try e path w of
        (Inr d, w1) \<Rightarrow> (d, w1)
      | (Inl x, w1) \<Rightarrow> (0, w1))"

definition run :: "env \<Rightarrow> string list \<Rightarrow> world \<Rightarrow> (bool \<times> string) \<times> world" where
  "run e cmd w =
     (case subprocess_run e cmd w of
        (Inr u, w1) \<Rightarrow> ((True, []), w1)
      | (Inl (CalledProcessError rc c), w1) \<Rightarrow>
          ((False, ''Command failed ('' @ str_int rc @ ''): '' @ join '' '' cmd), w1)
      | (Inl (ValueError msg), w1) \<Rightarrow> ((False, ''Error: '' @ msg), w1)
      | (Inl (OSError msg), w1) \<Rightarrow> ((False, ''Error: '' @ msg), w1))"

subsection \<open>The command builders\<close>

definition title_from_filename :: "string \<Rightarrow> string" where
  "title_from_filename path = replace_char CHR ''_'' CHR '' '' (stem path)"

definition build_smart_cmd :: "string \<Rightarrow> string \<Rightarrow> int \<Rightarrow> int \<Rightarrow> string list" where
  "build_smart_cmd inp out width height =
     [''ffmpeg'', ''-y'', ''-v'', ''error'', ''-i'', inp,
      ''-vf'', ''thumbnail=600,scale='' @ str_int width @ '':'' @ str_int height,
      ''-frames:v'', ''1'', out]"

text \<open>
  \<open>f"{x:.3f}"\<close>: three decimals, the nearest one, a tie going to the even last digit.
\<close>

definition round_half_even :: "real \<Rightarrow> int" where
  "round_half_even x =
     (let n = \<lfloor>x\<rfloor>; r = x - of_int n
      in if r < 1 / 2 then n else if 1 / 2 < r then n + 1 else if even n then n else n + 1)"

definition zfill3 :: "nat \<Rightarrow> string" where
  "zfill3 n = (let s = str_nat n in replicate (3 - length s) CHR ''0'' @ s)"

definition fmt3 :: "real \<Rightarrow> string" where
  "fmt3 x =
     (let n = nat (round_half_even (\<bar>x\<bar> * 1000))
      in (if x < 0 then ''-'' else []) @ str_nat (n div 1000) @ ''.'' @ zfill3 (n mod 1000))"

definition build_middle_cmd ::
  "env \<Rightarrow> string \<Rightarrow> string \<Rightarrow> int \<Rightarrow> int \<Rightarrow> real \<Rightarrow> world \<Rightarrow> string list \<times> world" where
  "build_middle_cmd e inp out width height percent w =
     (let (dur, w1) = ffprobe_duration e inp w;
          ts = (if 0 < dur then max 0 (dur * percent) else 0)
      in ([''ffmpeg'', ''-y'', ''-v'', ''error'', ''-ss'', fmt3 ts, ''-i'', inp,
           ''-frames:v'', ''1'', ''-vf'', ''scale='' @ str_int width @ '':'' @ str_int height,
           out],
          w1))"

text \<open>
  The three statements on the temporary file: it is created (and exists from then on),
  the title is written to it, and it is closed.
\<close>

definition write_title :: "env \<Rightarrow> string \<Rightarrow> world \<Rightarrow> (exn + string) \<times> world" where
  "write_title e title w =
     (case temp_name e (files w) of
        Inl x \<Rightarrow> (Inl x, \<lparr>files = files w, trace = trace w @ [Create_temp]\<rparr>)
      | Inr tmp \<Rightarrow>
          (let w1 = \<lparr>files = insert tmp (files w),
                     trace = trace w @ [Create_temp, Write_temp tmp title]\<rparr>
           in case write_fails e tmp title of
                Some x \<Rightarrow> (Inl x, w1)
              | None \<Rightarrow> (Inr tmp, w1)))"

definition vf_common :: "int \<Rightarrow> int \<Rightarrow> int \<Rightarrow> string \<Rightarrow> string \<Rightarrow> string" where
  "vf_common width height canvas_h font tmp =
     ''thumbnail=600,scale='' @ str_int width @ '':'' @ str_int height @ '','' @
     ''pad='' @ str_int width @ '':'' @ str_int canvas_h @ '':(ow-iw)/2:(oh-ih)/2:color=black,'' @
     ''drawbox=x=0:y=oh-140:w=ow:h=140:color=black@0.55:t=fill,'' @
     ''drawtext=fontfile='' @ [CHR 0x27] @ font @ [CHR 0x27] @
       '':textfile='' @ [CHR 0x27] @ tmp @ [CHR 0x27] @ '':x=40:y=h-70:'' @
     ''fontsize=48:fontcolor=white:borderw=2:bordercolor=black@0.9''"

text \<open>\<open>if logo:\<close> holds for a logo that is neither \<open>None\<close> nor the empty string.\<close>

definition build_styled_cmd ::
  "env \<Rightarrow> string \<Rightarrow> string \<Rightarrow> int \<Rightarrow> int \<Rightarrow> int \<Rightarrow> string \<Rightarrow> string option \<Rightarrow> string \<Rightarrow> world
     \<Rightarrow> (exn + string list \<times> string) \<times> world" where
  "build_styled_cmd e inp out width height canvas_h font logo title w =
     (case write_title e title w of
        (Inl x, w1) \<Rightarrow> (Inl x, w1)
      | (Inr tmp, w1) \<Rightarrow>
          (let vf = vf_common width height canvas_h font tmp;
               plain = [''ffmpeg'', ''-y'', ''-v'', ''error'', ''-i'', inp,
                        ''-vf'', vf, ''-frames:v'', ''1'', out];
               cmd = (case logo of
                        None \<Rightarrow> plain
                      | Some l \<Rightarrow>
                          if l \<noteq> []
                          then [''ffmpeg'', ''-y'', ''-v'', ''error'',
                                ''-i'', inp, ''-i'', l,
                                ''-filter_complex'',
                                ''[0:v]'' @ vf @ ''[bg];[bg][1:v]overlay=20:20'',
                                ''-frames:v'', ''1'', out]
                          else plain)
           in (Inr (cmd, tmp), w1)))"

subsection \<open>The tile of the grid\<close>

text \<open>
  \<open>int(s)\<close> on a string: blanks around are dropped, then an optional sign, then decimal
  digits, where single underscores may stand between digits. \<open>None\<close> is the \<open>ValueError\<close>.
  (The limit of CPython on the number of digits is not modelled.)
\<close>

definition is_space :: "char \<Rightarrow> bool" where
  "is_space c =
     (c \<in> {CHR '' '', CHR 0x09, CHR 0x0A, CHR 0x0B, CHR 0x0C, CHR 0x0D,
            CHR 0x1C, CHR 0x1D, CHR 0x1E, CHR 0x1F})"

definition strip :: "string \<Rightarrow> string" where
  "strip s = rev (dropWhile is_space (rev (dropWhile is_space s)))"

definition is_digit :: "char \<Rightarrow> bool" where
  "is_digit c = (CHR ''0'' \<le> c \<and> c \<le> CHR ''9'')"

fun digits_ok :: "string \<Rightarrow> bool" where
  "digits_ok [] = False"
| "digits_ok [c] = is_digit c"
| "digits_ok (c # d # s) =
     (is_digit c \<and> (if d = CHR ''_'' then digits_ok s else digits_ok (d # s)))"

definition digits_val :: "string \<Rightarrow> nat" where
  "digits_val s = foldl (\<lambda>a c. 10 * a + (of_char c - 48)) 0 (filter is_digit s)"

definition py_int :: "string \<Rightarrow> int option" where
  "py_int s =
     (let t = strip s;
          neg = (t \<noteq> [] \<and> hd t = CHR ''-'');
          body = (if t \<noteq> [] \<and> (hd t = CHR ''-'' \<or> hd t = CHR ''+'') then tl t else t)
      in if digits_ok body
         then Some (if neg then - int (digits_val body) else int (digits_val body))
         else None)"

text \<open>
  The \<open>try\<close> of \<open>build_grid_cmd\<close>: \<open>None\<close> when any of its three lines raises (the split
  does not give two pieces, a piece is not an integer, or the assertion fails).
\<close>

definition parse_tile :: "string \<Rightarrow> (int \<times> int) option" where
  "parse_tile tile =
     (case split_on CHR ''x'' (lower tile) of
        [a, b] \<Rightarrow>
          (case py_int a of
             None \<Rightarrow> None
           | Some cols \<Rightarrow>
               (case py_int b of
                  None \<Rightarrow> None
                | Some rows \<Rightarrow> if 0 < cols \<and> 0 < rows then Some (cols, rows) else None))
      | _ \<Rightarrow> None)"

text \<open>The text of the \<open>ValueError\<close> before the tile: "invalid --tile: " in Russian (UTF-8).\<close>

definition tile_error_text :: string where
  "tile_error_text =
     [CHR 0xD0, CHR 0x9D, CHR 0xD0, CHR 0xB5, CHR 0xD0, CHR 0xB2, CHR 0xD0, CHR 0xB5,
      CHR 0xD1, CHR 0x80, CHR 0xD0, CHR 0xBD, CHR 0xD1, CHR 0x8B, CHR 0xD0, CHR 0xB9,
      CHR 0x20, CHR 0x2D, CHR 0x2D, CHR 0x74, CHR 0x69, CHR 0x6C, CHR 0x65, CHR 0x3A,
      CHR 0x20]"

definition build_grid_cmd ::
  "env \<Rightarrow> string \<Rightarrow> string \<Rightarrow> int \<Rightarrow> string \<Rightarrow> world \<Rightarrow> (exn + string list) \<times> world" where
  "build_grid_cmd e inp out width tile w =
     (case parse_tile tile of
        None \<Rightarrow> (Inl (ValueError (tile_error_text @ tile)), w)
      | Some (cols, rows) \<Rightarrow>
          (let total = cols * rows;
               cellw = max 1 (width div cols);
               (dur, w1) = ffprobe_duration e inp w;
               fps = (if dur \<le> 0 then 1 else max 1 \<lceil>real_of_int total / dur\<rceil>)
           in (Inr [''ffmpeg'', ''-y'', ''-v'', ''error'', ''-i'', inp,
                    ''-vf'', ''fps='' @ str_int fps @ '',scale='' @ str_int cellw @ '':-2,tile=''
                             @ str_int cols @ ''x'' @ str_int rows,
                    ''-frames:v'', str_int total,
                    out],
               w1)))"

subsection \<open>One video\<close>

text \<open>The result of a job: the flag of success, \<open>str(path)\<close> and the diagnostic.\<close>

type_synonym result = "bool \<times> string \<times> string"

definition out_path :: "string \<Rightarrow> string \<Rightarrow> string \<Rightarrow> string" where
  "out_path outdir mode path =
     (if mode = ''grid'' then joinpath outdir (stem path @ ''_grid.jpg'')
      else joinpath outdir (stem path @ ''.jpg''))"

definition process_one ::
  "env \<Rightarrow> string \<Rightarrow> string \<Rightarrow> string \<Rightarrow> int \<Rightarrow> int \<Rightarrow> real \<Rightarrow> int \<Rightarrow> string \<Rightarrow> string option
     \<Rightarrow> string \<Rightarrow> world \<Rightarrow> (exn + result) \<times> world" where
  "process_one e path outdir mode width height percent canvas_h font logo tile w =
     (let out = out_path outdir mode path
      in if out \<in> files w then (Inr (True, path, ''skip (exists)''), w)
         else if mode = ''smart'' then
           (let cmd = build_smart_cmd path out width height;
                ((ok, msg), w1) = run e cmd w
            in (Inr (ok, path, msg), w1))
         else if mode = ''middle'' then
           (let (cmd, w1) = build_middle_cmd e path out width height percent w;
                ((ok, msg), w2) = run e cmd w1
            in (Inr (ok, path, msg), w2))
         else if mode = ''styled'' then
           (let title = title_from_filename path
            in case build_styled_cmd e path out width height canvas_h font logo title w of
                 (Inl x, w1) \<Rightarrow> (Inl x, w1)
               | (Inr (cmd, tmpfile), w1) \<Rightarrow>
                   (let ((ok, msg), w2) = run e cmd w1;
                        (u, w3) = os_remove e tmpfile w2
                    in (Inr (ok, path, msg), w3)))
         else if mode = ''grid'' then
           (case build_grid_cmd e path out width tile w of
              (Inl x, w1) \<Rightarrow> (Inl x, w1)
            | (Inr cmd, w1) \<Rightarrow>
                (let ((ok, msg), w2) = run e cmd w1
                 in (Inr (ok, path, msg), w2)))
         else (Inr (False, path, ''unknown mode: '' @ mode), w))"

subsection \<open>The run\<close>

text \<open>
  The arguments of the command line, as \<open>parse_args\<close> gives them; \<open>arg_input\<close> and
  \<open>arg_out\<close> are the two folders resolved to absolute paths.
\<close>

record args =
  arg_input :: string
  arg_out :: string
  arg_mode :: string
  arg_width :: int
  arg_height :: int
  arg_percent :: real
  arg_canvas_height :: int
  arg_font :: string
  arg_logo :: string
  arg_tile :: string
  arg_jobs :: int

text \<open>
  The lines the run prints. \<open>Job_line ok name msg\<close> is the line of one job, with its mark
  of success or failure, the name of the video and the diagnostic when one is shown;
  \<open>Done_line\<close> is the summary, with the numbers of successes and of errors.
\<close>

datatype message =
    No_videos
  | Found nat
  | Mode_line string int int string
  | Percent_line real
  | Font_line string
  | Logo_line string
  | Canvas_line int
  | Tile_line string
  | Job_line bool string "string option"
  | Done_line int int string


text \<open>
  The line of a job: the diagnostic is shown unless it is empty or the one of a skip, and
  the video is shown by its name.
\<close>

definition job_line :: "result \<Rightarrow> message" where
  "job_line r =
     (case r of (ok, name, msg) \<Rightarrow>
        Job_line ok (name_of name)
          (if msg \<noteq> [] \<and> msg \<noteq> ''skip (exists)'' then Some msg else None))"



text \<open>
  \<open>main\<close>, from the listing of the input folder on: the arguments are parsed, the two
  tools are found and the output folder is made. \<open>entries\<close> is the content of the input
  folder. An exception of a job leaves the \<open>with\<close> block only once the pool has run every
  job, and then leaves \<open>main\<close>.
\<close>

definition header :: "args \<Rightarrow> string option \<Rightarrow> nat \<Rightarrow> message list" where
  "header a logo n =
     [Found n, Mode_line (arg_mode a) (arg_width a) (arg_height a) (arg_out a)]
     @ (if arg_mode a = ''middle'' then [Percent_line (arg_percent a)] else [])
     @ (if arg_mode a = ''styled''
        then [Font_line (arg_font a)]
             @ (case logo of None \<Rightarrow> [] | Some l \<Rightarrow> if l \<noteq> [] then [Logo_line l] else [])
             @ [Canvas_line (arg_canvas_height a)]
        else [])
     @ (if arg_mode a = ''grid'' then [Tile_line (arg_tile a)] else [])"


subsection \<open>Reading a report, and some concrete systems\<close>

fun is_summary :: "message \<Rightarrow> bool" where
  "is_summary (Done_line ok errors out) = True"
| "is_summary m = False"

fun is_job_line :: "message \<Rightarrow> bool" where
  "is_job_line (Job_line ok name msg) = True"
| "is_job_line m = False"


text \<open>
  A system where \<open>ffprobe\<close> prints \<open>10.0\<close>, every other command succeeds and leaves the
  files as they are, and the temporary file is \<open>/tmp/title.txt\<close>.
\<close>

definition env_ok :: env where
  "env_ok =
     \<lparr>spawn = (\<lambda>cmd fs. (if take 1 cmd = [''ffprobe''] then Exited 0 ''10.0'' else Exited 0 [], fs)),
      float_of = (\<lambda>s. if s = ''10.0'' then Inr 10 else Inl (ValueError ''could not convert'')),
      temp_name = (\<lambda>fs. Inr ''/tmp/title.txt''),
      write_fails = (\<lambda>n t. None),
      unlink = (\<lambda>p fs. None)\<rparr>"

text \<open>The same system, where the operating system refuses to delete files.\<close>

definition env_no_unlink :: env where
  "env_no_unlink = env_ok\<lparr>unlink := (\<lambda>p fs. Some (OSError ''Permission denied''))\<rparr>"

definition world_empty :: world where
  "world_empty = \<lparr>files = {}, trace = []\<rparr>"


section \<open>Properties\<close>

subsection \<open>Paths and discovery\<close>

lemma name_of_joinpath: "CHR ''/'' \<notin> set n \<Longrightarrow> name_of (joinpath folder n) = n"
proof -
  assume n: "CHR ''/'' \<notin> set n"
  have tw: "takeWhile (\<lambda>c. c \<noteq> CHR ''/'') (rev n @ CHR ''/'' # ys) = rev n" for ys
    using n by (auto simp: takeWhile_tail takeWhile_eq_all_conv)
  show ?thesis
    using tw [of "[]"] tw [of "rev folder"] by (simp add: name_of_def joinpath_def)
qed

lemma name_of_plain: "CHR ''/'' \<notin> set n \<Longrightarrow> name_of n = n"
proof -
  assume "CHR ''/'' \<notin> set n"
  then have "takeWhile (\<lambda>c. c \<noteq> CHR ''/'') (rev n) = rev n"
    by (auto simp: takeWhile_eq_all_conv)
  then show ?thesis by (simp only: name_of_def rev_rev_ident)
qed


lemma stem_joinpath: "CHR ''/'' \<notin> set n \<Longrightarrow> stem (joinpath folder n) = stem n"
  by (simp add: stem_def name_of_joinpath name_of_plain)





text \<open>
  The scenario of a folder with \<open>a.mp4\<close>, \<open>b.mov\<close> and \<open>note.txt\<close>, a subdirectory and
  an extension in capitals.
\<close>

lemma list_videos_scenario:
  "list_videos ''/in''
     [(''b.mov'', File), (''note.txt'', File), (''a.mp4'', File),
      (''sub.mp4'', Dir [(''x.mp4'', File)]), (''C.MKV'', File)]
   = [''/in/C.MKV'', ''/in/a.mp4'', ''/in/b.mov'']"
  by code_simp



subsection \<open>The duration probe, the job runner and the percentage mode\<close>

lemma launch_fst: "fst (launch e cmd w) = fst (spawn e cmd (files w))"
  by (simp add: launch_def split: prod.splits)

lemma launch_snd:
  "snd (launch e cmd w) = \<lparr>files = snd (spawn e cmd (files w)), trace = trace w @ [Launch cmd]\<rparr>"
  by (simp add: launch_def split: prod.splits)

lemma ffprobe_duration_fst:
  "fst (ffprobe_duration e path w) =
     (case fst (spawn e (ffprobe_cmd path) (files w)) of
        Exited rc out \<Rightarrow>
          if rc = 0 then (case float_of e out of Inl x \<Rightarrow> 0 | Inr d \<Rightarrow> max 0 d) else 0
      | Failed msg \<Rightarrow> 0)"
  using launch_fst [of e "ffprobe_cmd path" w]
  by (auto simp: ffprobe_duration_def ffprobe_duration_try_def check_output_def
      split: prod.splits sum.splits proc.splits)

lemma ffprobe_duration_snd:
  "snd (ffprobe_duration e path w) = snd (launch e (ffprobe_cmd path) w)"
  by (auto simp: ffprobe_duration_def ffprobe_duration_try_def check_output_def
      split: prod.splits sum.splits proc.splits)

lemma ffprobe_duration_nonneg: "0 \<le> fst (ffprobe_duration e path w)"
  by (simp add: ffprobe_duration_fst split: proc.splits sum.splits)

text \<open>
  C4. \<open>ffprobe_duration\<close> returns a number in every case: \<open>0\<close> when the tool cannot be
  launched, when it exits with a status other than zero and when its output is not a
  number, and otherwise the number parsed, or \<open>0\<close> if that is negative. The result is never
  negative.
\<close>

theorem ffprobe_duration_never_raises:
  "fst (ffprobe_duration e path w) =
     (case fst (spawn e (ffprobe_cmd path) (files w)) of
        Exited rc out \<Rightarrow>
          if rc = 0 then (case float_of e out of Inl x \<Rightarrow> 0 | Inr d \<Rightarrow> max 0 d) else 0
      | Failed msg \<Rightarrow> 0)
   \<and> 0 \<le> fst (ffprobe_duration e path w)"
  using ffprobe_duration_fst ffprobe_duration_nonneg by simp

lemma run_fst:
  "fst (run e cmd w) =
     (case fst (spawn e cmd (files w)) of
        Exited rc out \<Rightarrow>
          if rc = 0 then (True, [])
          else (False, ''Command failed ('' @ str_int rc @ ''): '' @ join '' '' cmd)
      | Failed msg \<Rightarrow> (False, ''Error: '' @ msg))"
  using launch_fst [of e cmd w]
  by (auto simp: run_def subprocess_run_def split: prod.splits sum.splits proc.splits exn.splits)

lemma run_snd: "snd (run e cmd w) = snd (launch e cmd w)"
  by (auto simp: run_def subprocess_run_def split: prod.splits sum.splits proc.splits exn.splits)



subsection \<open>Skipping, and the tile of the grid\<close>

lemma process_one_exists:
  "out_path outdir mode path \<in> files w \<Longrightarrow>
   process_one e path outdir mode width height percent canvas_h font logo tile w
     = (Inr (True, path, ''skip (exists)''), w)"
  by (simp add: process_one_def)

text \<open>
  C6. When the output path of a video (the stem of the input and \<open>.jpg\<close>, after \<open>_grid\<close> in
  the grid mode) exists, \<open>process_one\<close> returns a success with the diagnostic
  \<open>skip (exists)\<close> and leaves the world as it is: no file changes and nothing is asked of
  the operating system, whatever the mode, the other arguments and the system are.
\<close>

theorem process_one_skip:
  assumes "joinpath outdir (stem path @ (if mode = ''grid'' then ''_grid.jpg'' else ''.jpg''))
             \<in> files w"
  shows "process_one e path outdir mode width height percent canvas_h font logo tile w
           = (Inr (True, path, ''skip (exists)''), w)"
  using assms by (intro process_one_exists) (simp add: out_path_def split: if_splits)

lemma stem_a: "stem ''/in/a.mp4'' = ''a''"
  by (simp add: stem_def name_of_def rfind_def)

theorem process_one_skip_witness:
  "process_one env_ok ''/in/a.mp4'' ''/out'' ''smart'' 640 (- 2) (3 / 10) 720 ''font.ttf'' None ''3x3''
      \<lparr>files = {''/out/a.jpg''}, trace = []\<rparr>
     = (Inr (True, ''/in/a.mp4'', ''skip (exists)''), \<lparr>files = {''/out/a.jpg''}, trace = []\<rparr>)"
  using process_one_skip [of "''/out''" "''/in/a.mp4''" "''smart''" "\<lparr>files = {''/out/a.jpg''}, trace = []\<rparr>"
      env_ok 640 "- 2" "3 / 10" 720 "''font.ttf''" None "''3x3''"]
  by (simp add: stem_a joinpath_def)







subsection \<open>The temporary file of the styled mode\<close>

lemma process_one_styled:
  assumes "out_path outdir ''styled'' path \<notin> files w"
      and "build_styled_cmd e path (out_path outdir ''styled'' path) width height canvas_h font logo
             (title_from_filename path) w = (Inr (cmd, tmp), w1)"
  shows "process_one e path outdir ''styled'' width height percent canvas_h font logo tile w
           = (Inr (fst (fst (run e cmd w1)), path, snd (fst (run e cmd w1))),
              snd (os_remove e tmp (snd (run e cmd w1))))"
  using assms by (simp add: process_one_def Let_def split: prod.splits)

lemma os_remove_snd:
  "snd (os_remove e p w) =
     \<lparr>files = (if unlink e p (files w) = None then files w - {p} else files w),
      trace = trace w @ [Remove p]\<rparr>"
  by (simp add: os_remove_def split: option.splits)

text \<open>
  C8, as amended. In the styled mode, once \<open>build_styled_cmd\<close> has returned the command and
  the temporary file, the last thing \<open>process_one\<close> asks of the operating system is to
  remove that file, whether the command succeeds or fails. When the removal does not raise
  the file does not exist afterwards; when it raises, the exception is dropped, the files
  stay as the command left them and the result of the job is the one of the command.
\<close>

theorem styled_cleanup:
  assumes "out_path outdir ''styled'' path \<notin> files w"
      and "build_styled_cmd e path (out_path outdir ''styled'' path) width height canvas_h font logo
             (title_from_filename path) w = (Inr (cmd, tmp), w1)"
  shows "process_one e path outdir ''styled'' width height percent canvas_h font logo tile w
           = (Inr (fst (fst (run e cmd w1)), path, snd (fst (run e cmd w1))),
              snd (os_remove e tmp (snd (run e cmd w1))))
       \<and> trace (snd (process_one e path outdir ''styled'' width height percent canvas_h font logo
                        tile w))
           = trace (snd (run e cmd w1)) @ [Remove tmp]
       \<and> (if unlink e tmp (files (snd (run e cmd w1))) = None
           then tmp \<notin> files (snd (process_one e path outdir ''styled'' width height percent
                                     canvas_h font logo tile w))
           else files (snd (process_one e path outdir ''styled'' width height percent canvas_h
                              font logo tile w))
                = files (snd (run e cmd w1)))"
  unfolding process_one_styled [OF assms] by (simp add: os_remove_snd)

lemma world_empty_simps: "files world_empty = {}" "trace world_empty = []"
  by (simp_all add: world_empty_def)

lemma env_ok_simps:
  "spawn env_ok cmd fs = (if take 1 cmd = [''ffprobe''] then Exited 0 ''10.0'' else Exited 0 [], fs)"
  "float_of env_ok s = (if s = ''10.0'' then Inr 10 else Inl (ValueError ''could not convert''))"
  "temp_name env_ok fs = Inr ''/tmp/title.txt''"
  "write_fails env_ok n t = None"
  "unlink env_ok p fs = None"
  by (simp_all add: env_ok_def)

lemma env_no_unlink_simps:
  "spawn env_no_unlink cmd fs = (if take 1 cmd = [''ffprobe''] then Exited 0 ''10.0'' else Exited 0 [], fs)"
  "float_of env_no_unlink s = (if s = ''10.0'' then Inr 10 else Inl (ValueError ''could not convert''))"
  "temp_name env_no_unlink fs = Inr ''/tmp/title.txt''"
  "write_fails env_no_unlink n t = None"
  "unlink env_no_unlink p fs = Some (OSError ''Permission denied'')"
  by (simp_all add: env_no_unlink_def env_ok_def)

lemma build_styled_cmd_ok:
  "temp_name e (files w) = Inr tmp \<Longrightarrow> write_fails e tmp title = None \<Longrightarrow>
   \<exists>cmd. build_styled_cmd e inp out width height canvas_h font logo title w
     = (Inr (''ffmpeg'' # cmd, tmp),
        \<lparr>files = insert tmp (files w), trace = trace w @ [Create_temp, Write_temp tmp title]\<rparr>)"
  by (simp add: build_styled_cmd_def write_title_def Let_def split: option.splits)

lemma run_ffmpeg_ok:
  "(\<And>fs. spawn e (''ffmpeg'' # cmd) fs = (Exited 0 [], fs)) \<Longrightarrow>
   run e (''ffmpeg'' # cmd) w = ((True, []), \<lparr>files = files w, trace = trace w @ [Launch (''ffmpeg'' # cmd)]\<rparr>)"
  using run_fst [of e "''ffmpeg'' # cmd" w] run_snd [of e "''ffmpeg'' # cmd" w]
  by (simp add: launch_snd prod_eq_iff)

theorem styled_cleanup_witness:
  "fst (process_one env_ok ''/in/a.mp4'' ''/out'' ''styled'' 640 (- 2) (3 / 10) 720 ''font.ttf'' None
          ''3x3'' world_empty) = Inr (True, ''/in/a.mp4'', [])
   \<and> last (trace (snd (process_one env_ok ''/in/a.mp4'' ''/out'' ''styled'' 640 (- 2) (3 / 10) 720
                          ''font.ttf'' None ''3x3'' world_empty))) = Remove ''/tmp/title.txt''
   \<and> ''/tmp/title.txt'' \<notin> files (snd (process_one env_ok ''/in/a.mp4'' ''/out'' ''styled'' 640 (- 2)
                                         (3 / 10) 720 ''font.ttf'' None ''3x3'' world_empty))"
proof -
  obtain cmd where b:
    "build_styled_cmd env_ok ''/in/a.mp4'' (out_path ''/out'' ''styled'' ''/in/a.mp4'') 640 (- 2) 720
       ''font.ttf'' None (title_from_filename ''/in/a.mp4'') world_empty
     = (Inr (''ffmpeg'' # cmd, ''/tmp/title.txt''),
        \<lparr>files = insert ''/tmp/title.txt'' (files world_empty),
         trace = trace world_empty
           @ [Create_temp, Write_temp ''/tmp/title.txt'' (title_from_filename ''/in/a.mp4'')]\<rparr>)"
    using build_styled_cmd_ok [of env_ok world_empty "''/tmp/title.txt''", OF env_ok_simps(3) env_ok_simps(4)]
    by blast
  have a: "out_path ''/out'' ''styled'' ''/in/a.mp4'' \<notin> files world_empty"
    by (simp add: world_empty_simps)
  have r: "run env_ok (''ffmpeg'' # cmd) w
           = ((True, []), \<lparr>files = files w, trace = trace w @ [Launch (''ffmpeg'' # cmd)]\<rparr>)" for w
    by (rule run_ffmpeg_ok) (simp add: env_ok_simps)
  show ?thesis
    using styled_cleanup [OF a b, of "3 / 10" "''3x3''"]
    by (simp add: r os_remove_snd env_ok_simps world_empty_simps)
qed

text \<open>
  The claim C8 as stated fails where the operating system refuses the removal: the job
  succeeds and the temporary file is still there.
\<close>

theorem styled_temp_file_survives:
  "fst (process_one env_no_unlink ''/in/a.mp4'' ''/out'' ''styled'' 640 (- 2) (3 / 10) 720
          ''font.ttf'' None ''3x3'' world_empty) = Inr (True, ''/in/a.mp4'', [])
   \<and> ''/tmp/title.txt'' \<in> files (snd (process_one env_no_unlink ''/in/a.mp4'' ''/out'' ''styled'' 640
                                         (- 2) (3 / 10) 720 ''font.ttf'' None ''3x3'' world_empty))"
proof -
  obtain cmd where b:
    "build_styled_cmd env_no_unlink ''/in/a.mp4'' (out_path ''/out'' ''styled'' ''/in/a.mp4'') 640 (- 2)
       720 ''font.ttf'' None (title_from_filename ''/in/a.mp4'') world_empty
     = (Inr (''ffmpeg'' # cmd, ''/tmp/title.txt''),
        \<lparr>files = insert ''/tmp/title.txt'' (files world_empty),
         trace = trace world_empty
           @ [Create_temp, Write_temp ''/tmp/title.txt'' (title_from_filename ''/in/a.mp4'')]\<rparr>)"
    using build_styled_cmd_ok [of env_no_unlink world_empty "''/tmp/title.txt''", OF env_no_unlink_simps(3) env_no_unlink_simps(4)]
    by blast
  have a: "out_path ''/out'' ''styled'' ''/in/a.mp4'' \<notin> files world_empty"
    by (simp add: world_empty_simps)
  have r: "run env_no_unlink (''ffmpeg'' # cmd) w
           = ((True, []), \<lparr>files = files w, trace = trace w @ [Launch (''ffmpeg'' # cmd)]\<rparr>)" for w
    by (rule run_ffmpeg_ok) (simp add: env_no_unlink_simps)
  show ?thesis
    using process_one_styled [OF a b, of "3 / 10" "''3x3''"]
    by (simp add: r os_remove_snd env_no_unlink_simps world_empty_simps)
qed

subsection \<open>The run and a tile that is not valid\<close>



lemma is_job_line_job_line [simp]: "is_job_line (job_line r)" "\<not> is_summary (job_line r)"
  by (simp_all add: job_line_def split: prod.splits)

lemma header_plain: "m \<in> set (header a logo n) \<Longrightarrow> \<not> is_summary m \<and> \<not> is_job_line m"
  by (auto simp: header_def split: if_splits option.splits)

lemma filter_header [simp]: "filter is_job_line (header a logo n) = []"
  using header_plain by (auto simp: filter_empty_conv)

lemma filter_job_lines [simp]: "filter is_job_line (map job_line rs) = map job_line rs"
  by (induction rs) simp_all













subsection \<open>The results of a run\<close>











subsection \<open>Scenarios\<close>

text \<open>A grid of two by two on a video of ten seconds: four frames, one frame per second.\<close>

lemma grid_scenario:
  "fst (build_grid_cmd env_ok ''/in/a.mp4'' ''/out/a_grid.jpg'' 640 ''2x2'' world_empty)
     = Inr [''ffmpeg'', ''-y'', ''-v'', ''error'', ''-i'', ''/in/a.mp4'',
            ''-vf'', ''fps=1,scale=320:-2,tile=2x2'', ''-frames:v'', ''4'', ''/out/a_grid.jpg'']"
  by code_simp

text \<open>A grid of three by three on a clip of a second and a half: six frames per second.\<close>

lemma grid_short_clip:
  "fst (build_grid_cmd (env_ok\<lparr>float_of := (\<lambda>s. Inr (3 / 2))\<rparr>) ''/in/a.mp4'' ''/out/a_grid.jpg''
          100 ''3X3'' world_empty)
     = Inr [''ffmpeg'', ''-y'', ''-v'', ''error'', ''-i'', ''/in/a.mp4'',
            ''-vf'', ''fps=6,scale=33:-2,tile=3x3'', ''-frames:v'', ''9'', ''/out/a_grid.jpg'']"
  by code_simp

text \<open>The percentage mode at 0.30 of ten seconds seeks to the third second.\<close>

lemma middle_scenario:
  "fst (build_middle_cmd env_ok ''/in/a.mp4'' ''/out/a.jpg'' 1280 (- 2) (3 / 10) world_empty)
     = [''ffmpeg'', ''-y'', ''-v'', ''error'', ''-ss'', ''3.000'', ''-i'', ''/in/a.mp4'',
        ''-frames:v'', ''1'', ''-vf'', ''scale=1280:-2'', ''/out/a.jpg'']"
  by code_simp

text \<open>Tiles that are valid, and tiles that are not.\<close>

lemma parse_tile_examples:
  "parse_tile ''3x3'' = Some (3, 3)" "parse_tile '' 4 X +3 '' = Some (4, 3)"
  "parse_tile ''1_0x2'' = Some (10, 2)" "parse_tile ''0x3'' = None" "parse_tile ''-1x2'' = None"
  "parse_tile ''3'' = None" "parse_tile ''3x3x3'' = None" "parse_tile ''3.5x2'' = None"
  "parse_tile '''' = None"
  by code_simp+

text \<open>
  The rate of the grid mode gives enough frames: over a duration \<open>d\<close> above zero, at least
  the \<open>t\<close> frames of the grid are sampled.
\<close>

lemma grid_rate_enough:
  assumes "0 < d"
  shows "real_of_int t \<le> real_of_int (max 1 \<lceil>real_of_int t / d\<rceil>) * d"
proof -
  have "real_of_int t / d \<le> real_of_int \<lceil>real_of_int t / d\<rceil>" by (rule le_of_int_ceiling)
  also have "\<dots> \<le> real_of_int (max 1 \<lceil>real_of_int t / d\<rceil>)" by simp
  finally show ?thesis using assms by (simp add: pos_divide_le_eq)
qed

end
